theory Spec2Isabelle
  imports Main
begin

section \<open>The testkit orchestrator (bin/testkit.js)\<close>

text \<open>
  The script starts a server process, polls a URL until the server answers, runs a second
  (driver) process to completion and then shuts the server down. Everything the script
  awaits comes from outside it: the child processes, the HTTP probe and the timers. The
  model takes these as a \<open>world\<close> (what each child and each probe does) and computes from
  it what the script does: the actions it performs, in order, and how it ends.

  Time is counted in milliseconds as \<open>nat\<close>. A timer fires when its delay has passed,
  where \<open>setTimeout\<close> sets a delay outside its range to 1 ms, and the script's own
  computation takes no time. An action is listed when it is begun. The output of the
  children, which is piped through, and an \<open>error\<close> event of the server later than its
  start are outside the model.
\<close>

subsection \<open>Values, errors, outcomes\<close>

text \<open>
  \<open>Error m\<close> is an error object whose \<open>message\<close> is \<open>m\<close>. \<open>TimeoutError url timeout\<close> is the
  error thrown at the end of \<open>waitForUrl\<close>, whose message interpolates \<open>url\<close> and
  \<open>timeout / 1000\<close>; it is kept structured, so that no floating-point rendering is needed.
\<close>

datatype js_error = Error string | TimeoutError string nat

text \<open>
  How an awaited call ends: it returns a value, it throws, it never settles, or the
  whole process is ended by \<open>process.exit\<close> while the call is pending.
\<close>

datatype 'a outcome = Returns 'a | Throws js_error | Hangs | Exits int

datatype log_line =
    StartingServer
  | UrlUp string
  | RunningTests
  | ErrorOccurred js_error
  | FailedToStartServer js_error
  | Sending string nat
  | ShutDownGracefully nat
  | TimedOutSendingSigkill nat
  | TestkitFinished

datatype action =
    Log log_line
  | SpawnServer
  | SpawnDriver
  | Fetch string
  | Sleep nat
  | CallGracefulShutdown
  | Kill string
  | ProcessExit int

record 'a timed =
  actions :: "action list"
  elapsed :: nat
  outcome :: "'a outcome"

definition after :: "action list \<Rightarrow> 'a timed \<Rightarrow> 'a timed" where
  "after as r = r\<lparr>actions := as @ actions r\<rparr>"

subsection \<open>Template literals\<close>

text \<open>
  A number in a template literal. Exit codes are integers, so only their decimal
  notation is needed; \<open>decimal n acc\<close> puts the digits of \<open>n\<close> in front of \<open>acc\<close>.
\<close>

definition digit :: "nat \<Rightarrow> char" where
  "digit d = ''0123456789'' ! d"

function decimal :: "nat \<Rightarrow> string \<Rightarrow> string" where
  "decimal n acc =
     (if n < 10 then digit n # acc else decimal (n div 10) (digit (n mod 10) # acc))"
  by pat_completeness auto
termination
  by (relation "measure fst") auto

declare decimal.simps [simp del]

definition template_number :: "int \<Rightarrow> string" where
  "template_number i =
     (if 0 \<le> i then decimal (nat i) [] else CHR ''-'' # decimal (nat (- i)) [])"

text \<open>The close code of a child is a number, or \<open>null\<close> when a signal ended it.\<close>

definition template_code :: "int option \<Rightarrow> string" where
  "template_code code = (case code of None \<Rightarrow> ''null'' | Some c \<Rightarrow> template_number c)"

subsection \<open>spawnProcess\<close>

text \<open>
  The events the child emits, in order. The promise settles at the first of them; later
  calls of \<open>resolve\<close> or \<open>reject\<close> have no effect. A child that emits nothing leaves the
  promise pending.
\<close>

datatype proc_event = Close "int option" | ErrorEvent js_error

fun spawnProcess :: "proc_event list \<Rightarrow> int outcome" where
  "spawnProcess [] = Hangs"
| "spawnProcess (Close code # _) =
     (if code = Some 0 then Returns 0
      else Throws (Error (''Process exited with code '' @ template_code code)))"
| "spawnProcess (ErrorEvent err # _) = Throws err"

subsection \<open>waitForUrl\<close>

text \<open>
  One call of \<open>fetch\<close>: it settles after some latency, with a response (whose \<open>ok\<close> flag
  is given) or with a rejection, or it never settles (\<open>fetch\<close> is called with no timeout).
\<close>

datatype fetch_result = Response bool | Rejected js_error

datatype fetch_behaviour = Settles nat fetch_result | NeverSettles

text \<open>
  The loop of \<open>waitForUrl\<close>; \<open>k\<close> counts the attempts made so far and \<open>now\<close> is
  \<open>Date.now() - startTime\<close>.
\<close>

function waitForUrl_loop ::
  "string \<Rightarrow> nat \<Rightarrow> (nat \<Rightarrow> fetch_behaviour) \<Rightarrow> nat \<Rightarrow> nat \<Rightarrow> unit timed" where
  "waitForUrl_loop url timeout probe k now =
     (if now < timeout then
        (case probe k of
           NeverSettles \<Rightarrow> \<lparr>actions = [Fetch url], elapsed = now, outcome = Hangs\<rparr>
         | Settles l r \<Rightarrow>
             if r = Response True
             then \<lparr>actions = [Fetch url, Log (UrlUp url)], elapsed = now + l,
                    outcome = Returns ()\<rparr>
             else after [Fetch url, Sleep 500]
                    (waitForUrl_loop url timeout probe (Suc k) (now + l + 500)))
      else \<lparr>actions = [], elapsed = now, outcome = Throws (TimeoutError url timeout)\<rparr>)"
  by pat_completeness auto
termination
  by (relation "measure (\<lambda>(url, timeout, probe, k, now). timeout - now)") auto

declare waitForUrl_loop.simps [simp del]

definition waitForUrl :: "string \<Rightarrow> nat \<Rightarrow> (nat \<Rightarrow> fetch_behaviour) \<Rightarrow> unit timed" where
  "waitForUrl url timeout probe = waitForUrl_loop url timeout probe 0 0"

subsection \<open>gracefulShutdown\<close>

record child_process =
  pid :: nat
  exitCode :: "int option"
  signalCode :: "string option"

datatype exit_status = ExitCode int | SignalCode string

text \<open>
  What the operating-system process behind a handle does once it is signalled:
  \<open>exit_after_signal\<close> is when its \<open>exit\<close> event fires, counted from the initial signal,
  if nothing else is sent (\<open>None\<close>: never); \<open>exit_after_kill\<close> is when it fires, counted
  from the \<open>SIGKILL\<close>, once that has been sent.
\<close>

record os_process =
  exit_after_signal :: "(nat \<times> exit_status) option"
  exit_after_kill :: "(nat \<times> exit_status) option"

definition exited :: "exit_status \<Rightarrow> child_process \<Rightarrow> child_process" where
  "exited st child =
     (case st of
        ExitCode c \<Rightarrow> child\<lparr>exitCode := Some c\<rparr>
      | SignalCode s \<Rightarrow> child\<lparr>signalCode := Some s\<rparr>)"

text \<open>
  The delay of \<open>setTimeout(f, ms)\<close>: a delay below 1 or above \<open>2^31 - 1\<close> is set to 1.
\<close>

definition setTimeout_delay :: "nat \<Rightarrow> nat" where
  "setTimeout_delay ms = (if ms < 1 \<or> 2147483647 < ms then 1 else ms)"

text \<open>
  \<open>childProcess.kill(signal)\<close> looks the upper-cased name up among the names of
  \<open>os.constants.signals\<close> and throws when it is not there. The table is the platform's
  (here: Linux), not the script's; names are taken as ASCII.
\<close>

definition upper :: "char \<Rightarrow> char" where
  "upper c =
     (let n = (of_char c :: nat) in if 97 \<le> n \<and> n \<le> 122 then char_of (n - 32) else c)"

definition signal_names :: "string list" where
  "signal_names =
     [''SIGHUP'', ''SIGINT'', ''SIGQUIT'', ''SIGILL'', ''SIGTRAP'', ''SIGABRT'', ''SIGIOT'',
      ''SIGBUS'', ''SIGFPE'', ''SIGKILL'', ''SIGUSR1'', ''SIGSEGV'', ''SIGUSR2'', ''SIGPIPE'',
      ''SIGALRM'', ''SIGTERM'', ''SIGCHLD'', ''SIGSTKFLT'', ''SIGCONT'', ''SIGSTOP'',
      ''SIGTSTP'', ''SIGTTIN'', ''SIGTTOU'', ''SIGURG'', ''SIGXCPU'', ''SIGXFSZ'',
      ''SIGVTALRM'', ''SIGPROF'', ''SIGWINCH'', ''SIGIO'', ''SIGPOLL'', ''SIGPWR'',
      ''SIGSYS'']"

definition known_signal :: "string \<Rightarrow> bool" where
  "known_signal signal = (map upper signal \<in> set signal_names)"

text \<open>
  \<open>Promise.race([exitPromise, timeoutPromise])\<close>: the \<open>exit\<close> event when it fires before
  the timer, \<open>None\<close> when the timer fires first. The timer is set before the signal is
  sent and timers run first in an iteration of the event loop, so the timer wins a tie.
\<close>

definition race :: "(nat \<times> exit_status) option \<Rightarrow> nat \<Rightarrow> (nat \<times> exit_status) option" where
  "race ex timeoutMs =
     (case ex of
        None \<Rightarrow> None
      | Some (d, st) \<Rightarrow> if d < setTimeout_delay timeoutMs then Some (d, st) else None)"

text \<open>
  The result holds what the call did and the handle as it is when the call ends. With a
  signal name that \<open>kill\<close> does not know, the line is logged, \<open>kill\<close> throws, nothing is
  sent and the call rejects.
\<close>

definition gracefulShutdown ::
  "child_process \<Rightarrow> os_process \<Rightarrow> nat \<Rightarrow> string \<Rightarrow> bool timed \<times> child_process" where
  "gracefulShutdown childProcess os timeoutMs signal =
     (if exitCode childProcess \<noteq> None \<or> signalCode childProcess \<noteq> None
      then (\<lparr>actions = [], elapsed = 0, outcome = Returns True\<rparr>, childProcess)
      else if \<not> known_signal signal
      then (\<lparr>actions = [Log (Sending signal (pid childProcess))], elapsed = 0,
             outcome = Throws (Error (''Unknown signal: '' @ signal))\<rparr>, childProcess)
      else
        let sent = [Log (Sending signal (pid childProcess)), Kill signal] in
        (case race (exit_after_signal os) timeoutMs of
           Some (d, st) \<Rightarrow>
             (\<lparr>actions = sent @ [Log (ShutDownGracefully (pid childProcess))],
               elapsed = d, outcome = Returns True\<rparr>, exited st childProcess)
         | None \<Rightarrow>
             let forced = sent @ [Log (TimedOutSendingSigkill (pid childProcess)),
                                  Kill ''SIGKILL''] in
             (case exit_after_kill os of
                Some (k, st) \<Rightarrow>
                  (\<lparr>actions = forced, elapsed = setTimeout_delay timeoutMs + k,
                    outcome = Returns False\<rparr>,
                   exited st childProcess)
              | None \<Rightarrow>
                  (\<lparr>actions = forced, elapsed = setTimeout_delay timeoutMs,
                    outcome = Hangs\<rparr>,
                   childProcess))))"

subsection \<open>main: the command line\<close>

text \<open>
  \<open>options\<close> is a plain object; the model keeps its own properties. Only \<open>port\<close> is ever
  read from it. A value is a string taken from the command line, \<open>true\<close>, or \<open>undefined\<close>
  when the property is absent.
\<close>

datatype js_value = Undefined | JTrue | JString string

type_synonym options = "string \<Rightarrow> js_value"

text \<open>\<open>const options = {}\<close>\<close>

definition empty_options :: options where
  "empty_options = (\<lambda>_. Undefined)"

text \<open>\<open>s.split('=')\<close>: the pieces between the separators, never an empty list.\<close>

fun split_eq :: "string \<Rightarrow> string list" where
  "split_eq [] = [[]]"
| "split_eq (c # cs) =
     (if c = CHR ''='' then [] # split_eq cs
      else (case split_eq cs of p # ps \<Rightarrow> (c # p) # ps | [] \<Rightarrow> [[c]]))"

definition option_key :: "string \<Rightarrow> string" where
  "option_key a = (case split_eq (drop 2 a) of key # _ \<Rightarrow> key | [] \<Rightarrow> [])"

text \<open>\<open>value || true\<close>, where \<open>value\<close> is the second piece, or \<open>undefined\<close> without one.\<close>

definition option_value :: "string \<Rightarrow> js_value" where
  "option_value a =
     (case split_eq (drop 2 a) of
        _ # v # _ \<Rightarrow> if v = [] then JTrue else JString v
      | _ \<Rightarrow> JTrue)"

text \<open>
  \<open>options[key] = value\<close>. Assigning a string or \<open>true\<close> to \<open>__proto__\<close> goes to the
  inherited setter, which ignores a value that is not an object.
\<close>

definition set_option :: "options \<Rightarrow> string \<Rightarrow> js_value \<Rightarrow> options" where
  "set_option opts key v = (if key = ''__proto__'' then opts else opts(key := v))"

text \<open>
  The loop over \<open>args\<close>: an argument that starts with \<open>--\<close> is recorded in \<open>options\<close> and
  spliced out, the others stay in order.
\<close>

fun parse_options :: "string list \<Rightarrow> options \<Rightarrow> string list \<times> options" where
  "parse_options [] opts = ([], opts)"
| "parse_options (a # as) opts =
     (if take 2 a = ''--''
      then parse_options as (set_option opts (option_key a) (option_value a))
      else (case parse_options as opts of (rest, opts') \<Rightarrow> (a # rest, opts')))"

text \<open>\<open>`${v}`\<close> for a value of \<open>options\<close>.\<close>

definition template_value :: "js_value \<Rightarrow> string" where
  "template_value v =
     (case v of Undefined \<Rightarrow> ''undefined'' | JTrue \<Rightarrow> ''true'' | JString s \<Rightarrow> s)"

definition serverURL :: "options \<Rightarrow> string" where
  "serverURL opts = ''http://localhost:'' @ template_value (opts ''port'')"

subsection \<open>run2\<close>

text \<open>
  \<open>spawn\<close> of the server returns a handle (\<open>Spawned\<close>), returns a handle that emits
  \<open>error\<close> on the next tick because the process could not be started (\<open>EmitsError\<close>), or
  throws (\<open>SpawnThrows\<close>). The handle of \<open>Spawned\<close> is given as \<open>gracefulShutdown\<close> finds it.
\<close>

datatype spawn_result =
    Spawned child_process
  | EmitsError child_process js_error
  | SpawnThrows js_error

record world =
  server :: spawn_result
  server_os :: os_process
  fetch :: "string \<Rightarrow> nat \<Rightarrow> fetch_behaviour"
  driver :: "proc_event list"

text \<open>
  What \<open>waitForUrl\<close> has begun when the next tick comes, with the timeout of 60000 ms
  that \<open>run2\<close> leaves it: its first call of \<open>fetch\<close>, and its first sleep when that call
  was rejected at once (latency 0: an address that cannot be parsed is rejected with no
  input or output). A response, and a rejection that comes from the network, arrive later.
\<close>

definition first_tick :: "string \<Rightarrow> (nat \<Rightarrow> fetch_behaviour) \<Rightarrow> action list" where
  "first_tick url probe =
     (case probe 0 of
        Settles l (Rejected err) \<Rightarrow> if l = 0 then [Fetch url, Sleep 500] else [Fetch url]
      | _ \<Rightarrow> [Fetch url])"

text \<open>
  The \<open>try\<close> block. The result is the value of \<open>serverProcess\<close> when the block ends and
  how the block ends. The server's \<open>error\<close> event fires on the next tick, when
  \<open>waitForUrl\<close> has begun what \<open>first_tick\<close> says; the handler logs and calls
  \<open>process.exit(1)\<close>, which ends the process there.
\<close>

definition run2_try ::
  "options \<Rightarrow> world \<Rightarrow> child_process option \<times> action list \<times> unit outcome" where
  "run2_try opts w =
     (case server w of
        SpawnThrows e \<Rightarrow> (None, [Log StartingServer, SpawnServer], Throws e)
      | EmitsError h e \<Rightarrow>
          (Some h,
           [Log StartingServer, SpawnServer]
             @ first_tick (serverURL opts) (fetch w (serverURL opts))
             @ [Log (FailedToStartServer e), ProcessExit 1],
           Exits 1)
      | Spawned h \<Rightarrow>
          let ready = waitForUrl (serverURL opts) 60000 (fetch w (serverURL opts));
              waited = [Log StartingServer, SpawnServer] @ actions ready
          in (case outcome ready of
                Returns _ \<Rightarrow>
                  (Some h, waited @ [Log RunningTests, SpawnDriver],
                   (case spawnProcess (driver w) of
                      Returns _ \<Rightarrow> Returns ()
                    | Throws e \<Rightarrow> Throws e
                    | Hangs \<Rightarrow> Hangs
                    | Exits c \<Rightarrow> Exits c))
              | Throws e \<Rightarrow> (Some h, waited, Throws e)
              | Hangs \<Rightarrow> (Some h, waited, Hangs)
              | Exits c \<Rightarrow> (Some h, waited, Exits c)))"

text \<open>The \<open>catch\<close> block: whatever was thrown is logged, and control goes on.\<close>

definition run2_catch :: "action list \<times> unit outcome \<Rightarrow> action list \<times> unit outcome" where
  "run2_catch r =
     (case r of
        (as, Throws e) \<Rightarrow> (as @ [Log (ErrorOccurred e)], Returns ())
      | _ \<Rightarrow> r)"

text \<open>
  The \<open>finally\<close> block runs when control leaves \<open>try\<close>/\<open>catch\<close>; it does not when the
  process has exited or the \<open>try\<close> block is still pending.
\<close>

definition run2_finally ::
  "child_process option \<Rightarrow> os_process \<Rightarrow> action list \<times> unit outcome
     \<Rightarrow> action list \<times> unit outcome" where
  "run2_finally serverProcess os r =
     (case r of
        (as, Returns _) \<Rightarrow>
          (case serverProcess of
             None \<Rightarrow> (as, Returns ())
           | Some h \<Rightarrow>
               let s = fst (gracefulShutdown h os 5000 ''SIGTERM'') in
               (as @ [CallGracefulShutdown] @ actions s,
                (case outcome s of
                   Returns _ \<Rightarrow> Returns ()
                 | Throws e \<Rightarrow> Throws e
                 | Hangs \<Rightarrow> Hangs
                 | Exits c \<Rightarrow> Exits c)))
      | _ \<Rightarrow> r)"

definition run2 :: "string list \<Rightarrow> options \<Rightarrow> world \<Rightarrow> action list \<times> unit outcome" where
  "run2 args opts w =
     (case run2_try opts w of
        (serverProcess, r) \<Rightarrow> run2_finally serverProcess (server_os w) (run2_catch r))"

subsection \<open>main and the top level\<close>

definition main :: "string list \<Rightarrow> world \<Rightarrow> action list \<times> unit outcome" where
  "main argv w =
     (case parse_options (drop 2 argv) empty_options of
        (args, opts) \<Rightarrow>
          let command = (if length args > 0 then hd args else ''run'');
              args' = (if length args > 0 then tl args else args)
          in if command = ''run'' then run2 args' opts w else run2 args' opts w)"

text \<open>
  The module's top level: \<open>await main()\<close>, then the last line is logged and the process
  ends with exit code 0 once nothing is pending. A rejection of \<open>main()\<close> would end the
  process with exit code 1. \<open>None\<close>: the process never exits.
\<close>

definition testkit :: "string list \<Rightarrow> world \<Rightarrow> action list \<times> int option" where
  "testkit argv w =
     (case main argv w of
        (as, Returns _) \<Rightarrow> (as @ [Log TestkitFinished], Some 0)
      | (as, Throws e) \<Rightarrow> (as, Some 1)
      | (as, Hangs) \<Rightarrow> (as, None)
      | (as, Exits c) \<Rightarrow> (as, Some c))"

subsection \<open>Observations on a run\<close>

text \<open>The signals sent by \<open>kill\<close>, in order.\<close>

fun signals_sent :: "action list \<Rightarrow> string list" where
  "signals_sent [] = []"
| "signals_sent (Kill s # as) = s # signals_sent as"
| "signals_sent (_ # as) = signals_sent as"

text \<open>How many times \<open>gracefulShutdown\<close> was called.\<close>

definition shutdown_calls :: "action list \<Rightarrow> nat" where
  "shutdown_calls as = count_list as CallGracefulShutdown"

text \<open>
  The same attempt with its transport error replaced by a response that is not \<open>ok\<close>.
\<close>

definition as_not_ready :: "fetch_behaviour \<Rightarrow> fetch_behaviour" where
  "as_not_ready b =
     (case b of
        Settles l (Rejected e) \<Rightarrow> Settles l (Response False)
      | _ \<Rightarrow> b)"

text \<open>The latency of an attempt that settles.\<close>

definition latency :: "fetch_behaviour \<Rightarrow> nat" where
  "latency b = (case b of Settles l r \<Rightarrow> l | NeverSettles \<Rightarrow> 0)"

text \<open>\<open>n\<close> rounds of polling: a probe, then the sleep of 500 ms.\<close>

definition polls :: "nat \<Rightarrow> string \<Rightarrow> action list" where
  "polls n url = concat (replicate n [Fetch url, Sleep 500])"

text \<open>
  The time at which round \<open>n\<close> begins when the first round begins at \<open>now\<close> with attempt
  \<open>k\<close>: each round before it took the latency of its probe and the sleep.
\<close>

definition round_start :: "(nat \<Rightarrow> fetch_behaviour) \<Rightarrow> nat \<Rightarrow> nat \<Rightarrow> nat \<Rightarrow> nat" where
  "round_start probe k now n = now + (\<Sum>i<n. latency (probe (k + i)) + 500)"

subsection \<open>Sample processes, probes and worlds\<close>

definition server_handle :: child_process where
  "server_handle = \<lparr>pid = 4242, exitCode = None, signalCode = None\<rparr>"

definition exited_handle :: child_process where
  "exited_handle = \<lparr>pid = 4242, exitCode = Some 0, signalCode = None\<rparr>"

text \<open>A server that exits 30 ms after the initial signal.\<close>

definition cooperative_os :: os_process where
  "cooperative_os = \<lparr>exit_after_signal = Some (30, SignalCode ''SIGTERM''),
                      exit_after_kill = Some (1, SignalCode ''SIGKILL'')\<rparr>"

text \<open>A server that ignores the initial signal and exits 7 ms after \<open>SIGKILL\<close>.\<close>

definition stubborn_os :: os_process where
  "stubborn_os = \<lparr>exit_after_signal = None,
                    exit_after_kill = Some (7, SignalCode ''SIGKILL'')\<rparr>"

definition ready_at_once :: "string \<Rightarrow> nat \<Rightarrow> fetch_behaviour" where
  "ready_at_once url k = Settles 5 (Response True)"

text \<open>Every attempt is refused after \<open>l\<close> ms.\<close>

definition refusing :: "nat \<Rightarrow> nat \<Rightarrow> fetch_behaviour" where
  "refusing l k = Settles l (Rejected (Error ''ECONNREFUSED''))"

definition always_refusing :: "string \<Rightarrow> nat \<Rightarrow> fetch_behaviour" where
  "always_refusing url = refusing 1"

text \<open>A server that exits 200 ms after the initial signal.\<close>

definition slow_os :: os_process where
  "slow_os = \<lparr>exit_after_signal = Some (200, SignalCode ''SIGTERM''),
               exit_after_kill = Some (1, SignalCode ''SIGKILL'')\<rparr>"

text \<open>An address that cannot be parsed: every attempt is rejected at once.\<close>

definition unparseable :: "string \<Rightarrow> nat \<Rightarrow> fetch_behaviour" where
  "unparseable url k = Settles 0 (Rejected (Error ''Failed to parse URL''))"

text \<open>The server comes up, the driver closes with code 2.\<close>

definition driver_fails_world :: world where
  "driver_fails_world =
     \<lparr>server = Spawned server_handle, server_os = cooperative_os,
      fetch = ready_at_once, driver = [Close (Some 2)]\<rparr>"

text \<open>The server comes up, the driver is ended by a signal.\<close>

definition driver_killed_world :: world where
  "driver_killed_world =
     \<lparr>server = Spawned server_handle, server_os = cooperative_os,
      fetch = ready_at_once, driver = [Close None]\<rparr>"

text \<open>The server's executable is missing: the handle emits \<open>error\<close>.\<close>

definition enoent_world :: world where
  "enoent_world =
     \<lparr>server = EmitsError server_handle (Error ''spawn npm ENOENT''),
      server_os = cooperative_os, fetch = always_refusing, driver = [Close (Some 0)]\<rparr>"

text \<open>The same with no port given: the address cannot be parsed.\<close>

definition enoent_no_port_world :: world where
  "enoent_no_port_world =
     \<lparr>server = EmitsError server_handle (Error ''spawn npm ENOENT''),
      server_os = cooperative_os, fetch = unparseable, driver = [Close (Some 0)]\<rparr>"

text \<open>The server starts, no port is given: the address cannot be parsed.\<close>

definition no_port_world :: world where
  "no_port_world =
     \<lparr>server = Spawned server_handle, server_os = cooperative_os,
      fetch = unparseable, driver = [Close (Some 0)]\<rparr>"

section \<open>Auxiliary facts\<close>

text \<open>The two signals the script itself names are in the table.\<close>

lemma known_signal_SIGTERM: "known_signal ''SIGTERM''"
  by (simp add: known_signal_def signal_names_def upper_def)

lemma known_signal_SIGKILL: "known_signal ''SIGKILL''"
  by (simp add: known_signal_def signal_names_def upper_def)

lemma outcome_after [simp]: "outcome (after as r) = outcome r"
  by (simp add: after_def)

lemma elapsed_after [simp]: "elapsed (after as r) = elapsed r"
  by (simp add: after_def)

lemma actions_after [simp]: "actions (after as r) = as @ actions r"
  by (simp add: after_def)

text \<open>The loop performs nothing but probes, sleeps and the line that reports success.\<close>

lemma waitForUrl_loop_actions:
  "set (actions (waitForUrl_loop url timeout probe k now))
     \<subseteq> {Fetch url, Sleep 500, Log (UrlUp url)}"
proof (induction url timeout probe k now rule: waitForUrl_loop.induct)
  case (1 url timeout probe k now)
  show ?case
  proof (cases "now < timeout")
    case False
    then show ?thesis by (simp add: waitForUrl_loop.simps [of url timeout probe k now])
  next
    case True
    show ?thesis
    proof (cases "probe k")
      case NeverSettles
      with True show ?thesis by (simp add: waitForUrl_loop.simps [of url timeout probe k now])
    next
      case (Settles l r)
      show ?thesis
      proof (cases "r = Response True")
        case ok: True
        with True Settles show ?thesis
          by (simp add: waitForUrl_loop.simps [of url timeout probe k now])
      next
        case False
        from "1.IH" [OF True Settles False] True Settles False show ?thesis
          by (simp add: waitForUrl_loop.simps [of url timeout probe k now])
      qed
    qed
  qed
qed

text \<open>The only error the loop throws is its own.\<close>

lemma waitForUrl_loop_throws:
  "outcome (waitForUrl_loop url timeout probe k now) = Throws e
   \<Longrightarrow> e = TimeoutError url timeout"
proof (induction url timeout probe k now rule: waitForUrl_loop.induct)
  case (1 url timeout probe k now)
  show ?case
  proof (cases "now < timeout")
    case False
    with "1.prems" show ?thesis
      by (simp add: waitForUrl_loop.simps [of url timeout probe k now])
  next
    case True
    show ?thesis
    proof (cases "probe k")
      case NeverSettles
      with True "1.prems" show ?thesis
        by (simp add: waitForUrl_loop.simps [of url timeout probe k now])
    next
      case (Settles l r)
      show ?thesis
      proof (cases "r = Response True")
        case ok: True
        with True Settles "1.prems" show ?thesis
          by (simp add: waitForUrl_loop.simps [of url timeout probe k now])
      next
        case False
        with True Settles "1.prems"
        have "outcome (waitForUrl_loop url timeout probe (Suc k) (now + l + 500)) = Throws e"
          by (simp add: waitForUrl_loop.simps [of url timeout probe k now])
        with "1.IH" [OF True Settles False] show ?thesis by simp
      qed
    qed
  qed
qed

lemma as_not_ready_simps:
  "as_not_ready NeverSettles = NeverSettles"
  "as_not_ready (Settles l (Response b)) = Settles l (Response b)"
  "as_not_ready (Settles l (Rejected e)) = Settles l (Response False)"
  by (simp_all add: as_not_ready_def)

text \<open>A rejected attempt and an attempt answered without success are treated alike.\<close>

lemma waitForUrl_loop_as_not_ready:
  "waitForUrl_loop url timeout (\<lambda>i. as_not_ready (probe i)) k now =
     waitForUrl_loop url timeout probe k now"
proof (induction url timeout probe k now rule: waitForUrl_loop.induct)
  case (1 url timeout probe k now)
  let ?quiet = "\<lambda>i. as_not_ready (probe i)"
  show ?case
  proof (cases "now < timeout")
    case False
    then show ?thesis
      by (simp add: waitForUrl_loop.simps [of url timeout probe k now]
          waitForUrl_loop.simps [of url timeout ?quiet k now])
  next
    case True
    show ?thesis
    proof (cases "probe k")
      case NeverSettles
      with True show ?thesis
        by (simp add: waitForUrl_loop.simps [of url timeout probe k now]
            waitForUrl_loop.simps [of url timeout ?quiet k now] as_not_ready_simps)
    next
      case (Settles l r)
      show ?thesis
      proof (cases "r = Response True")
        case ok: True
        with True Settles show ?thesis
          by (simp add: waitForUrl_loop.simps [of url timeout probe k now]
              waitForUrl_loop.simps [of url timeout ?quiet k now] as_not_ready_simps)
      next
        case False
        from "1.IH" [OF True Settles False] True Settles False show ?thesis
          by (cases r)
            (simp_all add: waitForUrl_loop.simps [of url timeout probe k now]
              waitForUrl_loop.simps [of url timeout ?quiet k now] as_not_ready_simps)
      qed
    qed
  qed
qed

text \<open>When no attempt succeeds and every attempt settles, the loop ends by its timeout.\<close>

lemma waitForUrl_loop_never_ready:
  assumes "\<forall>k. \<exists>l r. probe k = Settles l r \<and> r \<noteq> Response True"
  shows "\<exists>as t. waitForUrl_loop url T probe k now =
            \<lparr>actions = as, elapsed = t, outcome = Throws (TimeoutError url T)\<rparr>
          \<and> T \<le> t \<and> now \<le> t"
  using assms
proof (induction url T probe k now rule: waitForUrl_loop.induct)
  case (1 url T probe k now)
  show ?case
  proof (cases "now < T")
    case False
    then show ?thesis
      by (simp add: waitForUrl_loop.simps [of url T probe k now])
  next
    case True
    from "1.prems" obtain l r where pk: "probe k = Settles l r" and r: "r \<noteq> Response True"
      by blast
    from "1.IH" [OF True pk r "1.prems"]
    obtain as t where
      eq: "waitForUrl_loop url T probe (Suc k) (now + l + 500) =
             \<lparr>actions = as, elapsed = t, outcome = Throws (TimeoutError url T)\<rparr>"
      and b: "T \<le> t" "now + l + 500 \<le> t" by blast
    have "waitForUrl_loop url T probe k now =
            \<lparr>actions = [Fetch url, Sleep 500] @ as, elapsed = t,
             outcome = Throws (TimeoutError url T)\<rparr>"
      using True pk r eq by (simp add: waitForUrl_loop.simps [of url T probe k now] after_def)
    with b show ?thesis by simp
  qed
qed

lemma waitForUrl_loop_upper:
  assumes "\<forall>k. \<exists>l r. probe k = Settles l r \<and> r \<noteq> Response True"
    and "\<forall>k l r. probe k = Settles l r \<longrightarrow> l \<le> L"
    and "now < T + L + 500"
  shows "elapsed (waitForUrl_loop url T probe k now) < T + L + 500"
  using assms
proof (induction url T probe k now rule: waitForUrl_loop.induct)
  case (1 url T probe k now)
  show ?case
  proof (cases "now < T")
    case False
    with "1.prems"(3) show ?thesis
      by (simp add: waitForUrl_loop.simps [of url T probe k now])
  next
    case True
    from "1.prems"(1) obtain l r where pk: "probe k = Settles l r" and r: "r \<noteq> Response True"
      by blast
    from pk "1.prems"(2) have "l \<le> L" by blast
    with True have "now + l + 500 < T + L + 500" by simp
    from "1.IH" [OF True pk r "1.prems"(1) "1.prems"(2) this] True pk r
    show ?thesis by (simp add: waitForUrl_loop.simps [of url T probe k now])
  qed
qed

lemma waitForUrl_no_shutdown:
  "count_list (actions (waitForUrl url timeout probe)) CallGracefulShutdown = 0"
proof -
  have "CallGracefulShutdown \<notin> set (actions (waitForUrl url timeout probe))"
    using waitForUrl_loop_actions [of url timeout probe 0 0] by (auto simp add: waitForUrl_def)
  then show ?thesis by (simp add: count_list_0_iff)
qed

lemma gracefulShutdown_actions:
  "set (actions (fst (gracefulShutdown h os D sig)))
     \<subseteq> {Log (Sending sig (pid h)), Kill sig, Log (ShutDownGracefully (pid h)),
         Log (TimedOutSendingSigkill (pid h)), Kill ''SIGKILL''}"
  by (auto simp add: gracefulShutdown_def race_def Let_def
      split: option.splits prod.splits if_splits)

lemma gracefulShutdown_no_shutdown:
  "count_list (actions (fst (gracefulShutdown h os D sig))) CallGracefulShutdown = 0"
  by (simp add: gracefulShutdown_def race_def Let_def split: option.splits prod.splits)

text \<open>An option whose key is not \<open>port\<close> leaves \<open>options.port\<close> as it was.\<close>

lemma parse_options_port:
  "\<forall>a \<in> set as. take 2 a = ''--'' \<longrightarrow> option_key a \<noteq> ''port''
   \<Longrightarrow> snd (parse_options as opts) ''port'' = opts ''port''"
proof (induction as arbitrary: opts)
  case Nil
  then show ?case by simp
next
  case (Cons a as)
  have IH: "snd (parse_options as ops) ''port'' = ops ''port''" for ops
    using Cons.IH [of ops] Cons.prems by simp
  show ?case
  proof (cases "take 2 a = ''--''")
    case True
    with Cons.prems have "option_key a \<noteq> ''port''" by simp
    with True IH [of "set_option opts (option_key a) (option_value a)"] show ?thesis
      by (simp add: set_option_def)
  next
    case False
    with IH [of opts] show ?thesis
      by (cases "parse_options as opts") simp
  qed
qed

text \<open>\<open>run2\<close> never reads its \<open>args\<close>, and both branches of the \<open>switch\<close> call it.\<close>

lemma main_run2: "main argv w = run2 [] (snd (parse_options (drop 2 argv) empty_options)) w"
  by (simp add: main_def run2_def Let_def split: prod.splits)

lemma run2_fetches:
  assumes "Fetch u \<in> set (fst (run2 args opts w))"
  shows "u = serverURL opts"
proof (cases "server w")
  case (Spawned h)
  have a: "Fetch u \<in> set (actions (waitForUrl (serverURL opts) 60000 (fetch w (serverURL opts))))
           \<Longrightarrow> u = serverURL opts"
    using waitForUrl_loop_actions [of "serverURL opts" 60000 "fetch w (serverURL opts)" 0 0]
    by (auto simp add: waitForUrl_def)
  have b: "Fetch u \<notin> set (actions (fst (gracefulShutdown h (server_os w) 5000 ''SIGTERM'')))"
    using gracefulShutdown_actions [of h "server_os w" 5000 "''SIGTERM''"] by auto
  from assms Spawned a b show ?thesis
    by (auto simp add: run2_def run2_try_def run2_catch_def run2_finally_def Let_def
        split: outcome.splits)
next
  case (EmitsError h e)
  with assms show ?thesis
    by (auto simp add: run2_def run2_try_def run2_catch_def run2_finally_def first_tick_def
        split: fetch_behaviour.splits fetch_result.splits if_splits)
next
  case (SpawnThrows e)
  with assms show ?thesis
    by (simp add: run2_def run2_try_def run2_catch_def run2_finally_def)
qed

lemma run2_readiness_timeout:
  assumes "server w = Spawned h"
    and "outcome (waitForUrl (serverURL opts) 60000 (fetch w (serverURL opts))) = Throws e"
  shows "Log (ErrorOccurred e) \<in> set (fst (run2 args opts w))
         \<and> SpawnDriver \<notin> set (fst (run2 args opts w))"
proof -
  have a: "SpawnDriver
             \<notin> set (actions (waitForUrl (serverURL opts) 60000 (fetch w (serverURL opts))))"
    using waitForUrl_loop_actions [of "serverURL opts" 60000 "fetch w (serverURL opts)" 0 0]
    by (auto simp add: waitForUrl_def)
  have b: "SpawnDriver \<notin> set (actions (fst (gracefulShutdown h (server_os w) 5000 ''SIGTERM'')))"
    using gracefulShutdown_actions [of h "server_os w" 5000 "''SIGTERM''"] by auto
  from assms a b show ?thesis
    by (simp add: run2_def run2_try_def run2_catch_def run2_finally_def Let_def)
qed

text \<open>Nothing but the handler of the server's \<open>error\<close> event ends the process.\<close>

lemma waitForUrl_loop_no_exit:
  "outcome (waitForUrl_loop url timeout probe k now) \<noteq> Exits c"
proof (induction url timeout probe k now rule: waitForUrl_loop.induct)
  case (1 url timeout probe k now)
  show ?case
  proof (cases "now < timeout")
    case False
    then show ?thesis by (simp add: waitForUrl_loop.simps [of url timeout probe k now])
  next
    case True
    show ?thesis
    proof (cases "probe k")
      case NeverSettles
      with True show ?thesis by (simp add: waitForUrl_loop.simps [of url timeout probe k now])
    next
      case (Settles l r)
      show ?thesis
      proof (cases "r = Response True")
        case ok: True
        with True Settles show ?thesis
          by (simp add: waitForUrl_loop.simps [of url timeout probe k now])
      next
        case False
        from "1.IH" [OF True Settles False] True Settles False show ?thesis
          by (simp add: waitForUrl_loop.simps [of url timeout probe k now])
      qed
    qed
  qed
qed

lemma spawnProcess_no_exit: "spawnProcess evs \<noteq> Exits c"
  by (cases evs rule: spawnProcess.cases) auto

lemma gracefulShutdown_outcome:
  assumes "known_signal sig"
  shows "outcome (fst (gracefulShutdown h os D sig)) = Returns True
         \<or> outcome (fst (gracefulShutdown h os D sig)) = Returns False
         \<or> outcome (fst (gracefulShutdown h os D sig)) = Hangs"
  using assms
  by (auto simp add: gracefulShutdown_def race_def Let_def split: option.splits if_splits)

lemma run2_outcome_spawned:
  assumes "server w = Spawned h"
  shows "snd (run2 args opts w) = Returns () \<or> snd (run2 args opts w) = Hangs"
  using assms waitForUrl_loop_no_exit [of "serverURL opts" 60000 "fetch w (serverURL opts)" 0 0]
    spawnProcess_no_exit [of "driver w"]
    gracefulShutdown_outcome [OF known_signal_SIGTERM, of h "server_os w" 5000]
  by (auto simp add: run2_def run2_try_def run2_catch_def run2_finally_def Let_def waitForUrl_def
      split: outcome.splits)

text \<open>The whole trace of a run whose readiness wait throws.\<close>

lemma run2_timeout_trace:
  assumes "server w = Spawned h"
    and "waitForUrl (serverURL opts) 60000 (fetch w (serverURL opts)) =
           \<lparr>actions = as, elapsed = t, outcome = Throws e\<rparr>"
  shows "fst (run2 args opts w) =
           [Log StartingServer, SpawnServer] @ as
             @ [Log (ErrorOccurred e), CallGracefulShutdown]
             @ actions (fst (gracefulShutdown h (server_os w) 5000 ''SIGTERM''))"
  using assms
  by (simp add: run2_def run2_try_def run2_catch_def run2_finally_def Let_def)

text \<open>What has begun at the next tick is the beginning of the wait.\<close>

lemma first_tick_prefix:
  "\<exists>rest. actions (waitForUrl url 60000 probe) = first_tick url probe @ rest"
  by (auto simp add: waitForUrl_def first_tick_def waitForUrl_loop.simps [of url 60000 probe 0 0]
      split: fetch_behaviour.splits fetch_result.splits)

lemma first_tick_actions: "set (first_tick url probe) \<subseteq> {Fetch url, Sleep 500}"
  by (auto simp add: first_tick_def split: fetch_behaviour.splits fetch_result.splits if_splits)

lemma polls_Suc: "polls (Suc n) url = [Fetch url, Sleep 500] @ polls n url"
  by (simp add: polls_def)

lemma round_start_0: "round_start probe k now 0 = now"
  by (simp add: round_start_def)

lemma round_start_Suc:
  "round_start probe k now (Suc n) =
     round_start probe (Suc k) (now + latency (probe k) + 500) n"
  by (induction n) (simp_all add: round_start_def)

text \<open>
  When no attempt succeeds and every attempt settles, the loop polls round after round:
  every round begins before the timeout, and the error is thrown when a round would
  begin at or after it.
\<close>

lemma waitForUrl_loop_polls:
  assumes "\<forall>k. \<exists>l r. probe k = Settles l r \<and> r \<noteq> Response True"
  shows "\<exists>n. waitForUrl_loop url T probe k now =
            \<lparr>actions = polls n url, elapsed = round_start probe k now n,
             outcome = Throws (TimeoutError url T)\<rparr>
          \<and> T \<le> round_start probe k now n
          \<and> (\<forall>j<n. round_start probe k now j < T)"
  using assms
proof (induction url T probe k now rule: waitForUrl_loop.induct)
  case (1 url T probe k now)
  show ?case
  proof (cases "now < T")
    case False
    then have "waitForUrl_loop url T probe k now =
            \<lparr>actions = polls 0 url, elapsed = round_start probe k now 0,
             outcome = Throws (TimeoutError url T)\<rparr>
          \<and> T \<le> round_start probe k now 0
          \<and> (\<forall>j<0. round_start probe k now j < T)"
      by (simp add: waitForUrl_loop.simps [of url T probe k now] polls_def round_start_0)
    then show ?thesis by blast
  next
    case True
    from "1.prems" obtain l r where pk: "probe k = Settles l r" and r: "r \<noteq> Response True"
      by blast
    have lat: "latency (probe k) = l" by (simp add: pk latency_def)
    from "1.IH" [OF True pk r "1.prems"]
    obtain n where
      eq: "waitForUrl_loop url T probe (Suc k) (now + l + 500) =
             \<lparr>actions = polls n url, elapsed = round_start probe (Suc k) (now + l + 500) n,
              outcome = Throws (TimeoutError url T)\<rparr>"
      and lo: "T \<le> round_start probe (Suc k) (now + l + 500) n"
      and before: "\<forall>j<n. round_start probe (Suc k) (now + l + 500) j < T" by blast
    have "waitForUrl_loop url T probe k now =
            \<lparr>actions = polls (Suc n) url, elapsed = round_start probe k now (Suc n),
             outcome = Throws (TimeoutError url T)\<rparr>"
      using True pk r eq
      by (simp add: waitForUrl_loop.simps [of url T probe k now] after_def polls_Suc
          round_start_Suc latency_def)
    moreover have "T \<le> round_start probe k now (Suc n)"
      using lo by (simp add: round_start_Suc lat)
    moreover have "\<forall>j<Suc n. round_start probe k now j < T"
    proof (intro allI impI)
      fix j assume j: "j < Suc n"
      show "round_start probe k now j < T"
      proof (cases j)
        case 0
        with True show ?thesis by (simp add: round_start_0)
      next
        case (Suc i)
        with j before show ?thesis by (simp add: round_start_Suc lat)
      qed
    qed
    ultimately show ?thesis by blast
  qed
qed

section \<open>The exit code\<close>

text \<open>
  Once the server has been spawned, no failure reaches the exit code: the process ends
  with exit code 0 or does not end.
\<close>

lemma testkit_exit_code_spawned:
  assumes "server w = Spawned h"
  shows "snd (testkit argv w) = Some 0 \<or> snd (testkit argv w) = None"
  using run2_outcome_spawned [OF assms, of "[]" "snd (parse_options (drop 2 argv) empty_options)"]
  by (cases "run2 [] (snd (parse_options (drop 2 argv) empty_options)) w")
    (auto simp add: testkit_def main_run2)

text \<open>
  C1. The orchestrator should exit with code 0 only if the driver exited with code 0. It
  does not: when the server is up and the driver closes with code 2, \<open>spawnProcess\<close>
  rejects, the \<open>catch\<close> block of \<open>run2\<close> logs the message and lets control go on, the
  server is shut down, the last line is logged and the process ends with exit code 0.
  Only the handler of the server's \<open>error\<close> event sets a failing exit code.
\<close>

theorem testkit_driver_failure_exit_code:
  "testkit [''node'', ''testkit.js'', ''--port=3000''] driver_fails_world =
     ([Log StartingServer, SpawnServer, Fetch ''http://localhost:3000'',
       Log (UrlUp ''http://localhost:3000''), Log RunningTests, SpawnDriver,
       Log (ErrorOccurred (Error ''Process exited with code 2'')),
       CallGracefulShutdown, Log (Sending ''SIGTERM'' 4242), Kill ''SIGTERM'',
       Log (ShutDownGracefully 4242), Log TestkitFinished],
      Some 0)"
  by (simp add: testkit_def main_def run2_def run2_try_def run2_catch_def run2_finally_def
      driver_fails_world_def option_key_def option_value_def set_option_def serverURL_def
      empty_options_def template_value_def waitForUrl_def waitForUrl_loop.simps
      ready_at_once_def template_code_def template_number_def decimal.simps digit_def
      gracefulShutdown_def race_def setTimeout_delay_def known_signal_SIGTERM
      server_handle_def cooperative_os_def)

section \<open>Shutdown on every path\<close>

text \<open>
  C2, as stated, fails: when the server's executable is missing the handle has been
  created, the run ends with \<open>process.exit(1)\<close> in the handler of its \<open>error\<close> event, and
  \<open>gracefulShutdown\<close> has not been called.
\<close>

theorem shutdown_not_on_every_path_counterexample:
  "fst (run2_try empty_options enoent_world) = Some server_handle
   \<and> snd (run2 [] empty_options enoent_world) = Exits 1
   \<and> shutdown_calls (fst (run2 [] empty_options enoent_world)) = 0"
  by (simp add: enoent_world_def run2_def run2_try_def run2_catch_def run2_finally_def
      shutdown_calls_def first_tick_def always_refusing_def refusing_def)

text \<open>
  C2, amended. When the server is spawned and its handle emits no \<open>error\<close>, the handle is
  created; \<open>gracefulShutdown\<close> is called exactly once whenever the \<open>try\<close> block ends, by
  returning (success) or by throwing (driver failure, readiness timeout, any other
  exception), hence exactly once in every run that returns; and it is never called twice.
\<close>

theorem run2_shutdown_exactly_once:
  assumes "server w = Spawned h"
  shows "fst (run2_try opts w) = Some h
         \<and> ((snd (snd (run2_try opts w)) = Returns ()
              \<or> (\<exists>e. snd (snd (run2_try opts w)) = Throws e))
             \<longrightarrow> shutdown_calls (fst (run2 args opts w)) = 1)
         \<and> (snd (run2 args opts w) = Returns ()
             \<longrightarrow> shutdown_calls (fst (run2 args opts w)) = 1)
         \<and> shutdown_calls (fst (run2 args opts w)) \<le> 1"
  using assms
  by (auto simp add: run2_def run2_try_def run2_catch_def run2_finally_def shutdown_calls_def
      Let_def waitForUrl_no_shutdown gracefulShutdown_no_shutdown
      split: outcome.splits prod.splits)

theorem run2_shutdown_exactly_once_witness:
  "fst (run2_try empty_options driver_fails_world) = Some server_handle
   \<and> snd (run2 [] empty_options driver_fails_world) = Returns ()
   \<and> shutdown_calls (fst (run2 [] empty_options driver_fails_world)) = 1"
proof -
  have s: "server driver_fails_world = Spawned server_handle"
    by (simp add: driver_fails_world_def)
  have r: "snd (run2 [] empty_options driver_fails_world) = Returns ()"
    by (simp add: run2_def run2_try_def run2_catch_def run2_finally_def
        driver_fails_world_def serverURL_def empty_options_def
        template_value_def waitForUrl_def waitForUrl_loop.simps ready_at_once_def
        gracefulShutdown_def race_def setTimeout_delay_def known_signal_SIGTERM
        server_handle_def cooperative_os_def)
  from run2_shutdown_exactly_once [OF s, of empty_options "[]"] r show ?thesis by blast
qed

section \<open>The server fails to spawn\<close>

text \<open>
  C3, as stated, fails in its last part: after the server's \<open>error\<close> event the process
  is ended by \<open>process.exit(1)\<close> and control does not reach the shutdown step.
\<close>

theorem no_shutdown_after_server_error_counterexample:
  "snd (run2 [] empty_options enoent_no_port_world) = Exits 1
   \<and> CallGracefulShutdown \<notin> set (fst (run2 [] empty_options enoent_no_port_world))"
  by (simp add: enoent_no_port_world_def run2_def run2_try_def run2_catch_def run2_finally_def
      first_tick_def unparseable_def)

text \<open>
  C3, amended. When the server fails to spawn and its handle emits \<open>error\<close>, the handler
  logs the failure and ends the process with exit code 1 on the next tick. By then the
  readiness wait has issued its first probe, and it has begun its first sleep of 500 ms
  when that probe was rejected at once (as it is for the address built without a port,
  which cannot be parsed); the wait is cut there. Exactly one probe is issued, no driver
  is started, and the shutdown step is not reached.
\<close>

theorem server_spawn_failure_exits_at_once:
  assumes "server w = EmitsError h e"
  shows "((\<exists>err. fetch w (serverURL opts) 0 = Settles 0 (Rejected err)) \<longrightarrow>
            run2 args opts w =
              ([Log StartingServer, SpawnServer, Fetch (serverURL opts), Sleep 500,
                Log (FailedToStartServer e), ProcessExit 1], Exits 1))
         \<and> ((\<forall>err. fetch w (serverURL opts) 0 \<noteq> Settles 0 (Rejected err)) \<longrightarrow>
            run2 args opts w =
              ([Log StartingServer, SpawnServer, Fetch (serverURL opts),
                Log (FailedToStartServer e), ProcessExit 1], Exits 1))
         \<and> snd (testkit argv w) = Some 1
         \<and> length (filter (\<lambda>a. \<exists>u. a = Fetch u) (fst (testkit argv w))) = 1
         \<and> SpawnDriver \<notin> set (fst (testkit argv w))
         \<and> CallGracefulShutdown \<notin> set (fst (testkit argv w))"
proof -
  have run: "run2 args' opts' w =
          ([Log StartingServer, SpawnServer]
             @ first_tick (serverURL opts') (fetch w (serverURL opts'))
             @ [Log (FailedToStartServer e), ProcessExit 1], Exits 1)" for args' opts'
    using assms by (simp add: run2_def run2_try_def run2_catch_def run2_finally_def)
  have tick: "first_tick url probe = [Fetch url, Sleep 500] \<or> first_tick url probe = [Fetch url]"
    for url probe
    by (simp add: first_tick_def split: fetch_behaviour.splits fetch_result.splits)
  have a: "(\<exists>err. fetch w (serverURL opts) 0 = Settles 0 (Rejected err)) \<longrightarrow>
            run2 args opts w =
              ([Log StartingServer, SpawnServer, Fetch (serverURL opts), Sleep 500,
                Log (FailedToStartServer e), ProcessExit 1], Exits 1)"
    by (auto simp add: run first_tick_def)
  have b: "(\<forall>err. fetch w (serverURL opts) 0 \<noteq> Settles 0 (Rejected err)) \<longrightarrow>
            run2 args opts w =
              ([Log StartingServer, SpawnServer, Fetch (serverURL opts),
                Log (FailedToStartServer e), ProcessExit 1], Exits 1)"
    by (auto simp add: run first_tick_def split: fetch_behaviour.splits fetch_result.splits)
  let ?o = "snd (parse_options (drop 2 argv) empty_options)"
  have c: "snd (testkit argv w) = Some 1
         \<and> length (filter (\<lambda>a. \<exists>u. a = Fetch u) (fst (testkit argv w))) = 1
         \<and> SpawnDriver \<notin> set (fst (testkit argv w))
         \<and> CallGracefulShutdown \<notin> set (fst (testkit argv w))"
    using tick [of "serverURL ?o" "fetch w (serverURL ?o)"]
    by (auto simp add: testkit_def main_run2 run)
  from a b c show ?thesis by blast
qed

theorem server_spawn_failure_exits_at_once_witness:
  "run2 [] empty_options enoent_no_port_world =
     ([Log StartingServer, SpawnServer, Fetch ''http://localhost:undefined'', Sleep 500,
       Log (FailedToStartServer (Error ''spawn npm ENOENT'')), ProcessExit 1], Exits 1)
   \<and> run2 [] (empty_options(''port'' := JString ''3000'')) enoent_world =
     ([Log StartingServer, SpawnServer, Fetch ''http://localhost:3000'',
       Log (FailedToStartServer (Error ''spawn npm ENOENT'')), ProcessExit 1], Exits 1)
   \<and> snd (testkit [''node'', ''testkit.js''] enoent_no_port_world) = Some 1
   \<and> SpawnDriver \<notin> set (fst (testkit [''node'', ''testkit.js''] enoent_no_port_world))
   \<and> CallGracefulShutdown \<notin> set (fst (testkit [''node'', ''testkit.js''] enoent_no_port_world))"
  using server_spawn_failure_exits_at_once
    [of enoent_no_port_world server_handle "Error ''spawn npm ENOENT''" empty_options "[]"
        "[''node'', ''testkit.js'']"]
    server_spawn_failure_exits_at_once
    [of enoent_world server_handle "Error ''spawn npm ENOENT''"
        "empty_options(''port'' := JString ''3000'')" "[]" "[]"]
  by (simp add: enoent_world_def enoent_no_port_world_def serverURL_def template_value_def
      empty_options_def unparseable_def always_refusing_def refusing_def)

section \<open>gracefulShutdown\<close>

text \<open>
  C4. When the handle already shows an exit code or a signal code, \<open>gracefulShutdown\<close>
  performs nothing (no signal is sent, nothing is logged), returns \<open>true\<close> at once, and
  the handle is as it was.
\<close>

theorem gracefulShutdown_already_exited:
  assumes "exitCode c \<noteq> None \<or> signalCode c \<noteq> None"
  shows "gracefulShutdown c os timeoutMs signal =
           (\<lparr>actions = [], elapsed = 0, outcome = Returns True\<rparr>, c)"
  using assms by (simp add: gracefulShutdown_def)

theorem gracefulShutdown_already_exited_witness:
  "gracefulShutdown exited_handle stubborn_os 5000 ''SIGTERM'' =
     (\<lparr>actions = [], elapsed = 0, outcome = Returns True\<rparr>, exited_handle)"
  using gracefulShutdown_already_exited [of exited_handle stubborn_os 5000 "''SIGTERM''"]
  by (simp add: exited_handle_def)

text \<open>
  C5, as stated, fails for an escalation timeout above \<open>2^31 - 1\<close> ms: \<open>setTimeout\<close> sets
  such a delay to 1 ms, so with a timeout of 2147483648 ms a process that exits 200 ms
  after the initial signal is sent \<open>SIGKILL\<close>, and the call returns \<open>false\<close>.
\<close>

theorem gracefulShutdown_graceful_counterexample:
  "exitCode server_handle = None \<and> signalCode server_handle = None
   \<and> exit_after_signal slow_os = Some (200, SignalCode ''SIGTERM'')
   \<and> (200::nat) < 2147483648
   \<and> outcome (fst (gracefulShutdown server_handle slow_os 2147483648 ''SIGTERM''))
       = Returns False
   \<and> signals_sent (actions (fst (gracefulShutdown server_handle slow_os 2147483648 ''SIGTERM'')))
       = [''SIGTERM'', ''SIGKILL'']"
  by (simp add: gracefulShutdown_def race_def setTimeout_delay_def known_signal_SIGTERM
      server_handle_def slow_os_def)

text \<open>
  C5, amended. When a running process exits \<open>d\<close> ms after the initial signal (a signal
  name that \<open>kill\<close> knows, so that it is sent), \<open>d\<close> is less than the escalation timeout
  \<open>D\<close>, and \<open>D\<close> is at most \<open>2^31 - 1\<close> ms, \<open>gracefulShutdown\<close> returns \<open>true\<close> after \<open>d\<close> ms,
  and the initial signal is the only signal it sends.
\<close>

theorem gracefulShutdown_graceful:
  assumes "exitCode c = None" and "signalCode c = None"
    and "known_signal signal"
    and "exit_after_signal os = Some (d, st)" and "d < D" and "D \<le> 2147483647"
  shows "fst (gracefulShutdown c os D signal) =
           \<lparr>actions = [Log (Sending signal (pid c)), Kill signal,
                       Log (ShutDownGracefully (pid c))],
            elapsed = d, outcome = Returns True\<rparr>
         \<and> signals_sent (actions (fst (gracefulShutdown c os D signal))) = [signal]"
  using assms by (simp add: gracefulShutdown_def race_def setTimeout_delay_def)

theorem gracefulShutdown_graceful_witness:
  "fst (gracefulShutdown server_handle cooperative_os 5000 ''SIGTERM'') =
     \<lparr>actions = [Log (Sending ''SIGTERM'' 4242), Kill ''SIGTERM'',
                 Log (ShutDownGracefully 4242)],
      elapsed = 30, outcome = Returns True\<rparr>
   \<and> signals_sent (actions (fst (gracefulShutdown server_handle cooperative_os 5000 ''SIGTERM'')))
       = [''SIGTERM'']"
  using gracefulShutdown_graceful
    [of server_handle "''SIGTERM''" cooperative_os 30 "SignalCode ''SIGTERM''" 5000]
  by (simp add: server_handle_def cooperative_os_def known_signal_SIGTERM)




section \<open>waitForUrl\<close>

text \<open>
  C7. When an attempt of the probe is rejected with a transport error while time remains,
  the loop swallows the error, sleeps for the fixed 500 ms and goes on with its next
  iteration; whatever the probe does, the only error \<open>waitForUrl\<close> ever throws to its
  caller is its own timeout error; and the whole wait is the same as if every rejected
  attempt had been answered, after the same latency, by a response that is not \<open>ok\<close>.
\<close>

theorem waitForUrl_swallows_transport_errors:
  "(now < timeout \<and> probe k = Settles l (Rejected err) \<longrightarrow>
      waitForUrl_loop url timeout probe k now =
        after [Fetch url, Sleep 500] (waitForUrl_loop url timeout probe (Suc k) (now + l + 500)))
   \<and> (outcome (waitForUrl url timeout probe) = Throws e \<longrightarrow> e = TimeoutError url timeout)
   \<and> waitForUrl url timeout (\<lambda>i. as_not_ready (probe i)) = waitForUrl url timeout probe"
  by (auto simp add: waitForUrl_def waitForUrl_loop.simps [of url timeout probe k now]
      waitForUrl_loop_as_not_ready dest: waitForUrl_loop_throws)

theorem waitForUrl_swallows_transport_errors_witness:
  "waitForUrl_loop ''http://localhost:3000'' 1000 (refusing 400) 0 0 =
     after [Fetch ''http://localhost:3000'', Sleep 500]
       (waitForUrl_loop ''http://localhost:3000'' 1000 (refusing 400) (Suc 0) (0 + 400 + 500))
   \<and> outcome (waitForUrl ''http://localhost:3000'' 1000 (refusing 400))
       = Throws (TimeoutError ''http://localhost:3000'' 1000)
   \<and> waitForUrl ''http://localhost:3000'' 1000 (\<lambda>i. as_not_ready (refusing 400 i))
       = waitForUrl ''http://localhost:3000'' 1000 (refusing 400)"
proof -
  have o: "outcome (waitForUrl ''http://localhost:3000'' 1000 (refusing 400))
             = Throws (TimeoutError ''http://localhost:3000'' 1000)"
    by (simp add: waitForUrl_def waitForUrl_loop.simps refusing_def)
  from waitForUrl_swallows_transport_errors
    [of 0 1000 "refusing 400" 0 400 "Error ''ECONNREFUSED''" "''http://localhost:3000''"
        "TimeoutError ''http://localhost:3000'' 1000"] o
  show ?thesis by (simp add: refusing_def)
qed

text \<open>
  C8, as stated, fails: with a timeout of 1000 ms and a probe that is refused after
  400 ms each time, the attempts start at 0 and 900 ms, and the timeout error is thrown
  at 1800 ms, later than the timeout plus one poll interval (1500 ms).
\<close>

theorem waitForUrl_late_counterexample:
  "elapsed (waitForUrl ''http://localhost:3000'' 1000 (refusing 400)) = 1800
   \<and> outcome (waitForUrl ''http://localhost:3000'' 1000 (refusing 400))
       = Throws (TimeoutError ''http://localhost:3000'' 1000)
   \<and> \<not> elapsed (waitForUrl ''http://localhost:3000'' 1000 (refusing 400)) \<le> 1000 + 500"
  by (simp add: waitForUrl_def waitForUrl_loop.simps refusing_def)

text \<open>
  C8, amended. For every timeout \<open>T\<close> and every probe whose attempts all settle without
  success, \<open>waitForUrl\<close> terminates by throwing the timeout error, which carries the URL
  and \<open>T\<close>; it does so no earlier than \<open>T\<close> after its start, and, when no attempt takes
  longer than \<open>L\<close>, earlier than \<open>T + L + 500\<close>: one poll interval plus the latency of one
  probe after \<open>T\<close> (one poll interval when the probe settles at once).
\<close>

theorem waitForUrl_times_out:
  assumes "\<forall>k. \<exists>l r. probe k = Settles l r \<and> r \<noteq> Response True"
  shows "\<exists>as t. waitForUrl url T probe =
            \<lparr>actions = as, elapsed = t, outcome = Throws (TimeoutError url T)\<rparr>
          \<and> T \<le> t
          \<and> (\<forall>L. (\<forall>k l r. probe k = Settles l r \<longrightarrow> l \<le> L) \<longrightarrow> t < T + L + 500)"
proof -
  from waitForUrl_loop_never_ready [OF assms, of url T 0 0]
  obtain as t where
    eq: "waitForUrl url T probe =
           \<lparr>actions = as, elapsed = t, outcome = Throws (TimeoutError url T)\<rparr>"
    and lo: "T \<le> t" by (auto simp add: waitForUrl_def)
  have "t < T + L + 500" if "\<forall>k l r. probe k = Settles l r \<longrightarrow> l \<le> L" for L
  proof -
    have "(0::nat) < T + L + 500" by simp
    from waitForUrl_loop_upper [OF assms that this, of url 0] eq show ?thesis
      by (simp add: waitForUrl_def)
  qed
  with eq lo show ?thesis by blast
qed

theorem waitForUrl_times_out_witness:
  "\<exists>as t. waitForUrl ''http://localhost:3000'' 1000 (refusing 400) =
            \<lparr>actions = as, elapsed = t,
             outcome = Throws (TimeoutError ''http://localhost:3000'' 1000)\<rparr>
          \<and> 1000 \<le> t \<and> t < 1000 + 400 + 500"
proof -
  have h: "\<forall>k. \<exists>l r. refusing 400 k = Settles l r \<and> r \<noteq> Response True"
    by (simp add: refusing_def)
  from waitForUrl_times_out [OF h, of "''http://localhost:3000''" 1000]
  obtain as t where
    eq: "waitForUrl ''http://localhost:3000'' 1000 (refusing 400) =
           \<lparr>actions = as, elapsed = t,
            outcome = Throws (TimeoutError ''http://localhost:3000'' 1000)\<rparr>"
    and lo: "1000 \<le> t"
    and up: "\<forall>L. (\<forall>k l r. refusing 400 k = Settles l r \<longrightarrow> l \<le> L) \<longrightarrow> t < 1000 + L + 500"
    by blast
  from up [rule_format, of 400] have "t < 1000 + 400 + 500"
    by (simp add: refusing_def)
  with eq lo show ?thesis by blast
qed

section \<open>spawnProcess\<close>

text \<open>
  C9. \<open>spawnProcess\<close> resolves only when the first event of the child is \<open>close\<close> with
  code 0. For every other close code, \<open>null\<close> included, it rejects with an error whose
  message is \<open>Process exited with code\<close> followed by the code. A driver ended by a signal
  is therefore reported by \<open>run2\<close> with the message \<open>Process exited with code null\<close>.
\<close>

theorem spawnProcess_resolves_only_on_zero:
  "(spawnProcess evs = Returns v \<longrightarrow> v = 0 \<and> (\<exists>rest. evs = Close (Some 0) # rest))
   \<and> (code \<noteq> Some 0 \<longrightarrow>
        spawnProcess (Close code # rest) =
          Throws (Error (''Process exited with code '' @ template_code code)))
   \<and> spawnProcess (Close None # rest) = Throws (Error ''Process exited with code null'')
   \<and> (server w = Spawned h
        \<and> outcome (waitForUrl (serverURL opts) 60000 (fetch w (serverURL opts))) = Returns ()
        \<and> driver w = Close None # rest
        \<longrightarrow> Log (ErrorOccurred (Error ''Process exited with code null''))
              \<in> set (fst (run2 args opts w)))"
proof -
  have "spawnProcess evs = Returns v \<longrightarrow> v = 0 \<and> (\<exists>rest. evs = Close (Some 0) # rest)"
    by (cases evs rule: spawnProcess.cases) (auto split: if_splits)
  moreover have "code \<noteq> Some 0 \<longrightarrow>
        spawnProcess (Close code # rest) =
          Throws (Error (''Process exited with code '' @ template_code code))"
    by simp
  moreover have
    "spawnProcess (Close None # rest) = Throws (Error ''Process exited with code null'')"
    by (simp add: template_code_def)
  moreover have "server w = Spawned h
        \<and> outcome (waitForUrl (serverURL opts) 60000 (fetch w (serverURL opts))) = Returns ()
        \<and> driver w = Close None # rest
        \<longrightarrow> Log (ErrorOccurred (Error ''Process exited with code null''))
              \<in> set (fst (run2 args opts w))"
    by (simp add: run2_def run2_try_def run2_catch_def run2_finally_def Let_def
        template_code_def)
  ultimately show ?thesis by blast
qed

theorem spawnProcess_resolves_only_on_zero_witness:
  "spawnProcess [Close (Some 2)] = Throws (Error ''Process exited with code 2'')
   \<and> spawnProcess [Close None] = Throws (Error ''Process exited with code null'')
   \<and> Log (ErrorOccurred (Error ''Process exited with code null''))
        \<in> set (fst (run2 [] (empty_options(''port'' := JString ''3000'')) driver_killed_world))"
  using spawnProcess_resolves_only_on_zero
    [of "[Close (Some 2)]" 0 "Some 2" "[]" driver_killed_world server_handle
        "empty_options(''port'' := JString ''3000'')" "[]"]
  by (simp add: driver_killed_world_def serverURL_def template_value_def waitForUrl_def
      waitForUrl_loop.simps ready_at_once_def template_code_def template_number_def
      decimal.simps digit_def)

section \<open>The readiness URL without a port\<close>

text \<open>
  C10. When no argument of the command line is an option whose key is \<open>port\<close>,
  \<open>options.port\<close> is \<open>undefined\<close> and the readiness URL is the literal string
  \<open>http://localhost:undefined\<close>; this is the only address probed. When the server was
  spawned and no probe of that address succeeds, the readiness wait polls it, round after
  round of a probe and a sleep of 500 ms, at least once and as long as a round begins
  before 60000 ms have elapsed, and then fails by its timeout, at 60000 ms or later;
  \<open>run2\<close> logs the timeout and goes to the shutdown; no driver is started.
\<close>

theorem no_port_option_url_undefined:
  assumes "\<forall>a \<in> set (drop 2 argv). take 2 a = ''--'' \<longrightarrow> option_key a \<noteq> ''port''"
  shows "serverURL (snd (parse_options (drop 2 argv) empty_options))
           = ''http://localhost:undefined''
         \<and> (\<forall>u. Fetch u \<in> set (fst (main argv w)) \<longrightarrow> u = ''http://localhost:undefined'')
         \<and> (server w = Spawned h
              \<and> (\<forall>k. \<exists>l r. fetch w ''http://localhost:undefined'' k = Settles l r
                              \<and> r \<noteq> Response True)
             \<longrightarrow> (\<exists>n. 0 < n
                      \<and> waitForUrl ''http://localhost:undefined'' 60000
                            (fetch w ''http://localhost:undefined'') =
                          \<lparr>actions = polls n ''http://localhost:undefined'',
                           elapsed = round_start (fetch w ''http://localhost:undefined'') 0 0 n,
                           outcome = Throws (TimeoutError ''http://localhost:undefined'' 60000)\<rparr>
                      \<and> 60000 \<le> round_start (fetch w ''http://localhost:undefined'') 0 0 n
                      \<and> (\<forall>j<n. round_start (fetch w ''http://localhost:undefined'') 0 0 j
                                  < 60000)
                      \<and> fst (main argv w) =
                          [Log StartingServer, SpawnServer]
                            @ polls n ''http://localhost:undefined''
                            @ [Log (ErrorOccurred (TimeoutError ''http://localhost:undefined'' 60000)),
                               CallGracefulShutdown]
                            @ actions (fst (gracefulShutdown h (server_os w) 5000 ''SIGTERM'')))
                 \<and> Fetch ''http://localhost:undefined'' \<in> set (fst (main argv w))
                 \<and> Log (ErrorOccurred (TimeoutError ''http://localhost:undefined'' 60000))
                      \<in> set (fst (main argv w))
                 \<and> SpawnDriver \<notin> set (fst (main argv w)))"
proof -
  let ?opts = "snd (parse_options (drop 2 argv) empty_options)"
  let ?url = "''http://localhost:undefined''"
  let ?probe = "fetch w ?url"
  from parse_options_port [OF assms, of empty_options]
  have url: "serverURL ?opts = ?url"
    by (simp add: serverURL_def template_value_def empty_options_def)
  have fetches: "\<forall>u. Fetch u \<in> set (fst (main argv w)) \<longrightarrow> u = ?url"
    using run2_fetches [of _ "[]" ?opts w] url by (simp add: main_run2)
  have polling: "(\<exists>n. 0 < n
                  \<and> waitForUrl ?url 60000 ?probe =
                      \<lparr>actions = polls n ?url, elapsed = round_start ?probe 0 0 n,
                       outcome = Throws (TimeoutError ?url 60000)\<rparr>
                  \<and> 60000 \<le> round_start ?probe 0 0 n
                  \<and> (\<forall>j<n. round_start ?probe 0 0 j < 60000)
                  \<and> fst (main argv w) =
                      [Log StartingServer, SpawnServer] @ polls n ?url
                        @ [Log (ErrorOccurred (TimeoutError ?url 60000)), CallGracefulShutdown]
                        @ actions (fst (gracefulShutdown h (server_os w) 5000 ''SIGTERM'')))
               \<and> Fetch ?url \<in> set (fst (main argv w))
               \<and> Log (ErrorOccurred (TimeoutError ?url 60000)) \<in> set (fst (main argv w))
               \<and> SpawnDriver \<notin> set (fst (main argv w))"
    if srv: "server w = Spawned h"
      and never: "\<forall>k. \<exists>l r. ?probe k = Settles l r \<and> r \<noteq> Response True"
  proof -
    from waitForUrl_loop_polls [OF never, of ?url 60000 0 0]
    obtain n where
      eq: "waitForUrl ?url 60000 ?probe =
             \<lparr>actions = polls n ?url, elapsed = round_start ?probe 0 0 n,
              outcome = Throws (TimeoutError ?url 60000)\<rparr>"
      and lo: "60000 \<le> round_start ?probe 0 0 n"
      and before: "\<forall>j<n. round_start ?probe 0 0 j < 60000"
      by (auto simp add: waitForUrl_def)
    have pos: "0 < n"
    proof (rule ccontr)
      assume "\<not> 0 < n"
      with lo show False by (simp add: round_start_0)
    qed
    from eq have eq': "waitForUrl (serverURL ?opts) 60000 (fetch w (serverURL ?opts)) =
             \<lparr>actions = polls n ?url, elapsed = round_start ?probe 0 0 n,
              outcome = Throws (TimeoutError ?url 60000)\<rparr>"
      by (simp add: url)
    from run2_timeout_trace [OF srv eq', of "[]"]
    have trace: "fst (main argv w) =
                  [Log StartingServer, SpawnServer] @ polls n ?url
                    @ [Log (ErrorOccurred (TimeoutError ?url 60000)), CallGracefulShutdown]
                    @ actions (fst (gracefulShutdown h (server_os w) 5000 ''SIGTERM''))"
      by (simp add: main_run2)
    from pos obtain m where m: "n = Suc m" by (cases n) auto
    have probed: "Fetch ?url \<in> set (fst (main argv w))"
      by (simp add: trace m polls_Suc)
    from eq' have "outcome (waitForUrl (serverURL ?opts) 60000 (fetch w (serverURL ?opts)))
                    = Throws (TimeoutError ?url 60000)"
      by simp
    from run2_readiness_timeout [OF srv this, of "[]"]
    have rest: "Log (ErrorOccurred (TimeoutError ?url 60000)) \<in> set (fst (main argv w))
                \<and> SpawnDriver \<notin> set (fst (main argv w))"
      by (simp add: main_run2)
    from pos eq lo before trace probed rest show ?thesis by blast
  qed
  from url fetches polling show ?thesis by blast
qed

theorem no_port_option_url_undefined_witness:
  "serverURL (snd (parse_options (drop 2 [''node'', ''testkit.js'', ''--verbose''])
                     empty_options))
     = ''http://localhost:undefined''
   \<and> waitForUrl ''http://localhost:undefined'' 60000 (unparseable ''http://localhost:undefined'')
       = \<lparr>actions = polls 120 ''http://localhost:undefined'', elapsed = 60000,
          outcome = Throws (TimeoutError ''http://localhost:undefined'' 60000)\<rparr>
   \<and> Fetch ''http://localhost:undefined''
        \<in> set (fst (main [''node'', ''testkit.js'', ''--verbose''] no_port_world))
   \<and> Log (ErrorOccurred (TimeoutError ''http://localhost:undefined'' 60000))
        \<in> set (fst (main [''node'', ''testkit.js'', ''--verbose''] no_port_world))
   \<and> SpawnDriver \<notin> set (fst (main [''node'', ''testkit.js'', ''--verbose''] no_port_world))"
proof -
  let ?url = "''http://localhost:undefined''"
  have a: "\<forall>a \<in> set (drop 2 [''node'', ''testkit.js'', ''--verbose'']).
             take 2 a = ''--'' \<longrightarrow> option_key a \<noteq> ''port''"
    by (simp add: option_key_def)
  have s: "server no_port_world = Spawned server_handle"
    by (simp add: no_port_world_def)
  have f: "fetch no_port_world ?url = unparseable ?url"
    by (simp add: no_port_world_def)
  have n: "\<forall>k. \<exists>l r. fetch no_port_world ?url k = Settles l r \<and> r \<noteq> Response True"
    by (simp add: no_port_world_def unparseable_def)
  have rs: "round_start (unparseable ?url) 0 0 j = 500 * j" for j
    by (simp add: round_start_def unparseable_def latency_def)
  from no_port_option_url_undefined [OF a, of no_port_world server_handle] s n
  obtain n where
    url: "serverURL (snd (parse_options (drop 2 [''node'', ''testkit.js'', ''--verbose''])
                       empty_options)) = ?url"
    and eq: "waitForUrl ?url 60000 (unparseable ?url) =
               \<lparr>actions = polls n ?url, elapsed = round_start (unparseable ?url) 0 0 n,
                outcome = Throws (TimeoutError ?url 60000)\<rparr>"
    and lo: "60000 \<le> round_start (unparseable ?url) 0 0 n"
    and before: "\<forall>j<n. round_start (unparseable ?url) 0 0 j < 60000"
    and rest: "Fetch ?url \<in> set (fst (main [''node'', ''testkit.js'', ''--verbose''] no_port_world))"
      "Log (ErrorOccurred (TimeoutError ?url 60000))
         \<in> set (fst (main [''node'', ''testkit.js'', ''--verbose''] no_port_world))"
      "SpawnDriver \<notin> set (fst (main [''node'', ''testkit.js'', ''--verbose''] no_port_world))"
    unfolding f by blast
  from lo have "120 \<le> n" by (simp add: rs)
  moreover have "n \<le> 120"
  proof (rule ccontr)
    assume "\<not> n \<le> 120"
    then have "120 < n" by simp
    with before have "round_start (unparseable ?url) 0 0 120 < 60000" by blast
    then show False by (simp add: rs)
  qed
  ultimately have "n = 120" by simp
  with eq have "waitForUrl ?url 60000 (unparseable ?url) =
               \<lparr>actions = polls 120 ?url, elapsed = 60000,
                outcome = Throws (TimeoutError ?url 60000)\<rparr>"
    by (simp add: rs)
  with url rest show ?thesis by blast
qed


end
